theory Spec2Isabelle
  imports Complex_Main "HOL-Library.Word"
begin

section \<open>Values of the browser environment\<close>

text \<open>
  A JavaScript string is a sequence of UTF-16 code units; the regular expression of
  \<^verbatim>\<open>downloadVideo\<close> (no \<^verbatim>\<open>u\<close> flag) works on code units.  String literals of
  the source are written \<open>utf16 ''...''\<close>.  A \<^verbatim>\<open>Blob\<close> is its byte sequence.
\<close>

type_synonym jsstring = "16 word list"

type_synonym blob = "8 word list"

definition utf16 :: "string \<Rightarrow> jsstring" where
  "utf16 s = map (\<lambda>c. of_nat (of_char c)) s"

section \<open>Data model (interfaces of FaceTracker.tsx)\<close>

record BoundingBox =
  xCenter :: real
  yCenter :: real
  width :: real
  height :: real

text \<open>The fields \<^verbatim>\<open>x\<close> and \<^verbatim>\<open>y\<close> of a landmark.\<close>

record Landmark =
  lm_x :: real
  lm_y :: real

text \<open>Both fields of a detection are optional (\<^verbatim>\<open>boundingBox?\<close>, \<^verbatim>\<open>landmarks?\<close>).\<close>

record Detection =
  boundingBox :: "BoundingBox option"
  landmarks :: "Landmark list option"

record DetectionResult =
  detections :: "Detection list"

record RecordedVideo =
  rv_id :: jsstring
  rv_name :: jsstring
  rv_timestamp :: nat
  rv_duration :: int
  rv_size :: nat
  rv_thumbnail :: "jsstring option"

text \<open>The record written to the object store \<^verbatim>\<open>videos\<close> (key path \<^verbatim>\<open>id\<close>).\<close>

record VideoRecord =
  vr_id :: jsstring
  vr_name :: jsstring
  vr_timestamp :: nat
  vr_duration :: int
  vr_size :: nat
  vr_data :: blob

section \<open>Drawing surfaces\<close>

text \<open>
  A 2D context keeps its current styles and the sequence of drawing calls made on it.
  \<open>getContext = None\<close> is \<^verbatim>\<open>getContext('2d')\<close> returning \<^verbatim>\<open>null\<close>.
\<close>

datatype draw_op =
    ClearRect real real real real
  | DrawImage real real real real
  | StrokeRect real real real real
  | FillRect real real real real

record context2d =
  strokeStyle :: jsstring
  lineWidth :: real
  fillStyle :: jsstring
  ops :: "draw_op list"

record canvas =
  cwidth :: real
  cheight :: real
  getContext :: "context2d option"

record video =
  videoWidth :: real
  videoHeight :: real

definition clearRect :: "real \<Rightarrow> real \<Rightarrow> real \<Rightarrow> real \<Rightarrow> context2d \<Rightarrow> context2d" where
  "clearRect a b w h c = c\<lparr>ops := ops c @ [ClearRect a b w h]\<rparr>"

definition drawImage :: "video \<Rightarrow> real \<Rightarrow> real \<Rightarrow> real \<Rightarrow> real \<Rightarrow> context2d \<Rightarrow> context2d" where
  "drawImage v a b w h c = c\<lparr>ops := ops c @ [DrawImage a b w h]\<rparr>"

definition strokeRect :: "real \<Rightarrow> real \<Rightarrow> real \<Rightarrow> real \<Rightarrow> context2d \<Rightarrow> context2d" where
  "strokeRect a b w h c = c\<lparr>ops := ops c @ [StrokeRect a b w h]\<rparr>"

definition fillRect :: "real \<Rightarrow> real \<Rightarrow> real \<Rightarrow> real \<Rightarrow> context2d \<Rightarrow> context2d" where
  "fillRect a b w h c = c\<lparr>ops := ops c @ [FillRect a b w h]\<rparr>"

fun is_stroke :: "draw_op \<Rightarrow> bool" where
  "is_stroke (StrokeRect _ _ _ _) = True"
| "is_stroke _ = False"

fun is_fill :: "draw_op \<Rightarrow> bool" where
  "is_fill (FillRect _ _ _ _) = True"
| "is_fill _ = False"

section \<open>State of the component and of the browser stores\<close>

datatype objectURL = ObjectURL blob

datatype MediaStream = MediaStream nat

datatype FaceDetection = FaceDetection jsstring

record MediaRecorder =
  mr_stream :: MediaStream
  mr_mimeType :: jsstring
  mr_recording :: bool

text \<open>Calls on the two stores, in the order they are made.\<close>

datatype store_event =
    IDBOpen
  | IDBAdd VideoRecord
  | IDBGet jsstring
  | IDBDelete jsstring
  | TxComplete
  | LSGet
  | LSSet "RecordedVideo list"

text \<open>
  The \<^verbatim>\<open>useState\<close> and \<^verbatim>\<open>useRef\<close> cells of the component, the object store
  \<^verbatim>\<open>videos\<close> of \<^verbatim>\<open>FaceTrackerDB\<close>, the \<^verbatim>\<open>savedVideos\<close> item of
  \<^verbatim>\<open>localStorage\<close> (\<open>None\<close> while the item is absent), the files handed to the
  download manager, and the log of store calls.
\<close>

record world =
  videoRef :: "video option"
  canvasRef :: "canvas option"
  compositeCanvasRef :: "canvas option"
  isRecording :: bool
  recordingDuration :: int
  faceDetected :: bool
  error :: "jsstring option"
  successMessage :: "jsstring option"
  isLoading :: bool
  recordedVideos :: "RecordedVideo list"
  selectedVideo :: "objectURL option"
  faceDetectionRef :: "FaceDetection option"
  mediaRecorderRef :: "MediaRecorder option"
  recordedChunksRef :: "blob list"
  recordingIntervalRef :: "nat option"
  compositeStreamRef :: "MediaStream option"
  videos :: "jsstring \<rightharpoonup> VideoRecord"
  savedVideos :: "RecordedVideo list option"
  downloads :: "(jsstring \<times> blob) list"
  store_log :: "store_event list"

section \<open>Overlay compositor: \<^verbatim>\<open>onResults\<close> and \<^verbatim>\<open>drawFaceTracking\<close>\<close>

text \<open>The body of the \<^verbatim>\<open>forEach\<close> over the landmarks of one detection.\<close>

definition drawLandmark :: "real \<Rightarrow> real \<Rightarrow> Landmark \<Rightarrow> context2d \<Rightarrow> context2d" where
  "drawLandmark canvasWidth canvasHeight landmark c =
     fillRect (lm_x landmark * canvasWidth - 2) (lm_y landmark * canvasHeight - 2) 4 4
       (c\<lparr>fillStyle := utf16 ''#ff0000''\<rparr>)"

text \<open>The body of the \<^verbatim>\<open>forEach\<close> over the detections.\<close>

definition drawDetection :: "real \<Rightarrow> real \<Rightarrow> Detection \<Rightarrow> context2d \<Rightarrow> context2d" where
  "drawDetection canvasWidth canvasHeight detection c =
     (let c1 = (case boundingBox detection of
                  None \<Rightarrow> c
                | Some bbox \<Rightarrow>
                    strokeRect
                      (xCenter bbox * canvasWidth - (width bbox * canvasWidth) / 2)
                      (yCenter bbox * canvasHeight - (height bbox * canvasHeight) / 2)
                      (width bbox * canvasWidth)
                      (height bbox * canvasHeight)
                      (c\<lparr>strokeStyle := utf16 ''#00ff00'', lineWidth := 3\<rparr>))
      in (case landmarks detection of
            None \<Rightarrow> c1
          | Some ls \<Rightarrow> fold (drawLandmark canvasWidth canvasHeight) ls c1))"

definition drawFaceTracking ::
    "DetectionResult \<Rightarrow> context2d \<Rightarrow> real \<Rightarrow> real \<Rightarrow> context2d" where
  "drawFaceTracking results c canvasWidth canvasHeight =
     fold (drawDetection canvasWidth canvasHeight) (detections results) c"

text \<open>
  \<^verbatim>\<open>onResults\<close>: returns at once when a surface, the video element or a context is
  missing; otherwise resizes both canvases, clears the overlay, paints the video frame on
  the composite, sets \<^verbatim>\<open>faceDetected\<close> and, if there are detections, runs
  \<^verbatim>\<open>drawFaceTracking\<close> on both contexts.
\<close>

definition onResults :: "DetectionResult \<Rightarrow> world \<Rightarrow> world" where
  "onResults results s =
     (case (canvasRef s, compositeCanvasRef s, videoRef s) of
        (Some cv, Some compositeCanvas, Some v) \<Rightarrow>
          (case (getContext cv, getContext compositeCanvas) of
             (Some ctx, Some compositeCtx) \<Rightarrow>
               (let w = videoWidth v; h = videoHeight v;
                    ctx1 = clearRect 0 0 w h ctx;
                    compositeCtx1 = drawImage v 0 0 w h compositeCtx;
                    hasfaces = (length (detections results) > 0);
                    ctx2 = (if hasfaces then drawFaceTracking results ctx1 w h else ctx1);
                    compositeCtx2 =
                      (if hasfaces then drawFaceTracking results compositeCtx1 w h
                       else compositeCtx1)
                in s\<lparr>canvasRef := Some (cv\<lparr>cwidth := w, cheight := h, getContext := Some ctx2\<rparr>),
                      compositeCanvasRef :=
                        Some (compositeCanvas\<lparr>cwidth := w, cheight := h,
                                               getContext := Some compositeCtx2\<rparr>),
                      faceDetected := hasfaces\<rparr>)
           | _ \<Rightarrow> s)
      | _ \<Rightarrow> s)"

text \<open>The drawing calls a surface has received, and those made since an earlier state.\<close>

definition surface_ops :: "canvas option \<Rightarrow> draw_op list" where
  "surface_ops r = (case r of None \<Rightarrow> []
                    | Some cv \<Rightarrow> (case getContext cv of None \<Rightarrow> [] | Some c \<Rightarrow> ops c))"

definition drawn_since :: "canvas option \<Rightarrow> canvas option \<Rightarrow> draw_op list" where
  "drawn_since before after = drop (length (surface_ops before)) (surface_ops after)"

section \<open>Recording controller\<close>

text \<open>
  What the browser does with \<^verbatim>\<open>new MediaRecorder(...)\<close> and \<^verbatim>\<open>start()\<close>:
  the constructor throws (codec not supported), \<^verbatim>\<open>start\<close> throws, or the session runs.
\<close>

datatype recorder_outcome = CtorThrows | StartThrows | Started

text \<open>
  \<^verbatim>\<open>startRecording\<close>; \<open>timer\<close> is the handle \<^verbatim>\<open>setInterval\<close> returns for the
  duration counter.
\<close>

definition startRecording :: "recorder_outcome \<Rightarrow> nat \<Rightarrow> world \<Rightarrow> world" where
  "startRecording outcome timer s =
     (case compositeStreamRef s of
        None \<Rightarrow>
          s\<lparr>error :=
              Some (utf16 ''Composite stream not ready. Please wait for camera initialization.'')\<rparr>
      | Some stream \<Rightarrow>
          (case outcome of
             CtorThrows \<Rightarrow> s\<lparr>error := Some (utf16 ''Failed to start recording'')\<rparr>
           | StartThrows \<Rightarrow>
               s\<lparr>recordedChunksRef := [],
                 mediaRecorderRef :=
                   Some \<lparr>mr_stream = stream, mr_mimeType = utf16 ''video/webm;codecs=vp9'',
                         mr_recording = False\<rparr>,
                 error := Some (utf16 ''Failed to start recording'')\<rparr>
           | Started \<Rightarrow>
               s\<lparr>recordedChunksRef := [],
                 mediaRecorderRef :=
                   Some \<lparr>mr_stream = stream, mr_mimeType = utf16 ''video/webm;codecs=vp9'',
                         mr_recording = True\<rparr>,
                 isRecording := True,
                 recordingDuration := 0,
                 recordingIntervalRef := Some timer\<rparr>))"

text \<open>The handlers registered by \<^verbatim>\<open>startRecording\<close>, and \<^verbatim>\<open>stopRecording\<close>.\<close>

definition ondataavailable :: "blob \<Rightarrow> world \<Rightarrow> world" where
  "ondataavailable chunk s =
     (if length chunk > 0 then s\<lparr>recordedChunksRef := recordedChunksRef s @ [chunk]\<rparr> else s)"

definition duration_tick :: "world \<Rightarrow> world" where
  "duration_tick s = s\<lparr>recordingDuration := recordingDuration s + 1\<rparr>"

definition stopRecording :: "world \<Rightarrow> world" where
  "stopRecording s =
     (case mediaRecorderRef s of
        None \<Rightarrow> s
      | Some r \<Rightarrow>
          if isRecording s
          then s\<lparr>mediaRecorderRef := Some (r\<lparr>mr_recording := False\<rparr>),
                 isRecording := False,
                 recordingIntervalRef := None\<rparr>
          else s)"

section \<open>Thumbnail generator\<close>

text \<open>
  \<^verbatim>\<open>video.duration\<close> once metadata is available: a number of seconds, or
  \<^verbatim>\<open>Infinity\<close> for a stream without a known end.
\<close>

datatype duration = Seconds real | Unbounded

datatype media_event = LoadedMetadata duration | Seeked | MediaError

datatype 'a promise = Pending | Fulfilled 'a | Rejected jsstring

text \<open>
  The off-screen video element, the canvas and the promise of one call of
  \<^verbatim>\<open>generateThumbnail\<close>.  \<open>tj_drawn\<close> lists the \<^verbatim>\<open>drawImage\<close> calls: the playback
  position shown by the video and the canvas size at the call.
\<close>

record thumb_job =
  tj_src :: blob
  tj_duration :: "duration option"
  tj_currentTime :: real
  tj_seeking :: bool
  tj_canvas_w :: nat
  tj_canvas_h :: nat
  tj_drawn :: "(real \<times> nat \<times> nat) list"
  tj_revoked :: bool
  tj_promise :: "jsstring promise"

definition new_job :: "blob \<Rightarrow> thumb_job" where
  "new_job b =
     \<lparr>tj_src = b, tj_duration = None, tj_currentTime = 0, tj_seeking = False,
      tj_canvas_w = 300, tj_canvas_h = 150, tj_drawn = [], tj_revoked = False,
      tj_promise = Pending\<rparr>"

text \<open>\<^verbatim>\<open>Math.min(1, video.duration / 2)\<close>.\<close>

fun seek_target :: "duration \<Rightarrow> real" where
  "seek_target (Seconds d) = min 1 (d / 2)"
| "seek_target Unbounded = 1"

text \<open>A promise is settled once: later calls of \<^verbatim>\<open>resolve\<close> or \<^verbatim>\<open>reject\<close> do nothing.\<close>

definition resolve :: "jsstring \<Rightarrow> thumb_job \<Rightarrow> thumb_job" where
  "resolve v j = (if tj_promise j = Pending then j\<lparr>tj_promise := Fulfilled v\<rparr> else j)"

definition reject :: "jsstring \<Rightarrow> thumb_job \<Rightarrow> thumb_job" where
  "reject e j = (if tj_promise j = Pending then j\<lparr>tj_promise := Rejected e\<rparr> else j)"

text \<open>The three listeners.  Assigning \<^verbatim>\<open>currentTime\<close> starts a seek.\<close>

definition on_loadedmetadata :: "thumb_job \<Rightarrow> thumb_job" where
  "on_loadedmetadata j =
     (case tj_duration j of
        None \<Rightarrow> j\<lparr>tj_canvas_w := 160, tj_canvas_h := 90\<rparr>
      | Some d \<Rightarrow>
          j\<lparr>tj_canvas_w := 160, tj_canvas_h := 90,
            tj_currentTime := seek_target d, tj_seeking := True\<rparr>)"

definition on_seeked :: "(blob \<Rightarrow> real \<Rightarrow> nat \<Rightarrow> nat \<Rightarrow> jsstring) \<Rightarrow> thumb_job \<Rightarrow> thumb_job" where
  "on_seeked toDataURL j =
     (let j1 = j\<lparr>tj_drawn := tj_drawn j @ [(tj_currentTime j, tj_canvas_w j, tj_canvas_h j)]\<rparr>;
          thumbnail = toDataURL (tj_src j) (tj_currentTime j) (tj_canvas_w j) (tj_canvas_h j)
      in resolve thumbnail (j1\<lparr>tj_revoked := True\<rparr>))"

definition on_error :: "thumb_job \<Rightarrow> thumb_job" where
  "on_error j = reject (utf16 ''Error loading video for thumbnail'') j"

text \<open>
  One event of the video element.  The element fires \<^verbatim>\<open>loadedmetadata\<close> once, when the
  duration becomes known, and \<^verbatim>\<open>seeked\<close> only at the end of a seek in progress; an entry
  of the script that the element cannot fire in its state is not an event and is passed
  over.
\<close>

fun deliver :: "(blob \<Rightarrow> real \<Rightarrow> nat \<Rightarrow> nat \<Rightarrow> jsstring) \<Rightarrow> media_event \<Rightarrow> thumb_job \<Rightarrow> thumb_job" where
  "deliver toDataURL (LoadedMetadata d) j =
     (if tj_duration j = None then on_loadedmetadata (j\<lparr>tj_duration := Some d\<rparr>) else j)"
| "deliver toDataURL Seeked j =
     (if tj_seeking j then on_seeked toDataURL (j\<lparr>tj_seeking := False\<rparr>) else j)"
| "deliver toDataURL MediaError j = on_error j"

definition run_job :: "(blob \<Rightarrow> real \<Rightarrow> nat \<Rightarrow> nat \<Rightarrow> jsstring) \<Rightarrow> media_event list \<Rightarrow> thumb_job \<Rightarrow> thumb_job" where
  "run_job toDataURL evs j = fold (deliver toDataURL) evs j"

section \<open>The browser as seen by the persistence code\<close>

datatype idb_open = OpenThrows | OpenError | OpenSuccess

text \<open>
  \<open>date_now\<close> and \<open>date_now_ts\<close> are the two readings of \<^verbatim>\<open>Date.now()\<close> in
  \<^verbatim>\<open>saveRecording\<close>; \<open>canvas_context\<close> tells whether the thumbnail canvas has a 2D
  context; \<open>media_events\<close> is what the video element does with a payload; \<open>toDataURL\<close>
  is the JPEG data URL of the frame of a payload at a position, drawn at a size;
  \<open>open_db\<close> is the result of \<^verbatim>\<open>indexedDB.open\<close> and \<open>tx_commits\<close> whether the store
  commits a transaction whose requests succeeded.
\<close>

record env =
  date_now :: nat
  date_now_ts :: nat
  toLocaleString :: jsstring
  canvas_context :: bool
  media_events :: "blob \<Rightarrow> media_event list"
  toDataURL :: "blob \<Rightarrow> real \<Rightarrow> nat \<Rightarrow> nat \<Rightarrow> jsstring"
  open_db :: idb_open
  tx_commits :: bool

definition generateThumbnail :: "env \<Rightarrow> blob \<Rightarrow> jsstring promise" where
  "generateThumbnail e b =
     (if \<not> canvas_context e then Rejected (utf16 ''Could not get canvas context'')
      else tj_promise (run_job (toDataURL e) (media_events e b) (new_job b)))"

section \<open>Persistence: save, list, get, delete\<close>

text \<open>The decimal digits of \<^verbatim>\<open>Date.now()\<close> inside a template literal.\<close>

fun decimal :: "nat \<Rightarrow> jsstring" where
  "decimal n =
     (if n < 10 then [of_nat (48 + n)] else decimal (n div 10) @ [of_nat (48 + n mod 10)])"

declare decimal.simps [simp del]

definition log_store :: "store_event list \<Rightarrow> world \<Rightarrow> world" where
  "log_store evs s = s\<lparr>store_log := store_log s @ evs\<rparr>"

text \<open>\<^verbatim>\<open>JSON.parse(localStorage.getItem('savedVideos') || '[]')\<close>.\<close>

definition getSavedVideos :: "world \<Rightarrow> RecordedVideo list" where
  "getSavedVideos s = (case savedVideos s of None \<Rightarrow> [] | Some l \<Rightarrow> l)"

text \<open>\<^verbatim>\<open>transaction.oncomplete\<close> of \<^verbatim>\<open>saveRecording\<close>.\<close>

definition save_oncomplete :: "VideoRecord \<Rightarrow> jsstring \<Rightarrow> world \<Rightarrow> world" where
  "save_oncomplete videoRecord thumbnail s =
     (let l = getSavedVideos s @
                [\<lparr>rv_id = vr_id videoRecord, rv_name = vr_name videoRecord,
                  rv_timestamp = vr_timestamp videoRecord,
                  rv_duration = vr_duration videoRecord,
                  rv_size = vr_size videoRecord, rv_thumbnail = Some thumbnail\<rparr>]
      in (log_store [LSGet, LSSet l] s)\<lparr>savedVideos := Some l, recordedVideos := l\<rparr>)"

text \<open>
  \<^verbatim>\<open>request.onsuccess\<close> of \<^verbatim>\<open>saveRecording\<close>.  \<^verbatim>\<open>store.add\<close> fails on a key that is
  already in the store; the transaction then aborts and \<^verbatim>\<open>oncomplete\<close> is not called.
  \<open>duration\<close> is the value of \<^verbatim>\<open>recordingDuration\<close> in the closure.
\<close>

definition save_onsuccess ::
    "env \<Rightarrow> int \<Rightarrow> blob \<Rightarrow> jsstring \<Rightarrow> jsstring \<Rightarrow> world \<Rightarrow> world" where
  "save_onsuccess e duration b videoId thumbnail s =
     (let videoRecord =
            \<lparr>vr_id = videoId, vr_name = utf16 ''Recording_'' @ toLocaleString e,
             vr_timestamp = date_now_ts e, vr_duration = duration,
             vr_size = length b, vr_data = b\<rparr>;
          s1 = log_store [IDBAdd videoRecord] s
      in if tx_commits e \<and> videos s videoId = None
         then save_oncomplete videoRecord thumbnail
                (log_store [TxComplete] (s1\<lparr>videos := (videos s)(videoId \<mapsto> videoRecord)\<rparr>))
         else s1)"

text \<open>
  \<^verbatim>\<open>saveRecording\<close>.  While the thumbnail promise is pending the function does not
  go on; when it is rejected, or \<^verbatim>\<open>indexedDB.open\<close> throws, the \<^verbatim>\<open>catch\<close> sets the
  error.
\<close>

definition saveRecording :: "env \<Rightarrow> int \<Rightarrow> world \<Rightarrow> world" where
  "saveRecording e duration s =
     (if length (recordedChunksRef s) = 0 then s
      else
        (let b = concat (recordedChunksRef s);
             videoId = utf16 ''video_'' @ decimal (date_now e)
         in case generateThumbnail e b of
              Pending \<Rightarrow> s
            | Rejected err \<Rightarrow> s\<lparr>error := Some (utf16 ''Failed to save recording'')\<rparr>
            | Fulfilled thumbnail \<Rightarrow>
                (case open_db e of
                   OpenThrows \<Rightarrow> s\<lparr>error := Some (utf16 ''Failed to save recording'')\<rparr>
                 | OpenError \<Rightarrow> log_store [IDBOpen] s
                 | OpenSuccess \<Rightarrow>
                     save_onsuccess e duration b videoId thumbnail (log_store [IDBOpen] s))))"

text \<open>\<^verbatim>\<open>!video.thumbnail\<close>: the field is missing or the empty string.\<close>

definition lacks_thumbnail :: "RecordedVideo \<Rightarrow> bool" where
  "lacks_thumbnail v = (case rv_thumbnail v of None \<Rightarrow> True | Some t \<Rightarrow> t = [])"

text \<open>\<^verbatim>\<open>findIndex\<close> by id, then the assignment to the entry found.\<close>

fun set_thumbnail :: "jsstring \<Rightarrow> jsstring \<Rightarrow> RecordedVideo list \<Rightarrow> RecordedVideo list" where
  "set_thumbnail i t [] = []"
| "set_thumbnail i t (v # vs) =
     (if rv_id v = i then v\<lparr>rv_thumbnail := Some t\<rparr> # vs else v # set_thumbnail i t vs)"

text \<open>
  \<^verbatim>\<open>loadSavedVideos\<close>, the call: it parses the stored list, issues one
  \<^verbatim>\<open>indexedDB.open\<close> for each entry without a thumbnail (a throw is caught and only
  logged to the console) and sets the in-memory list to the parsed array.  The second
  component lists the entries whose request is pending; the handlers of a request run as
  later events, after the call has returned.
\<close>

definition loadSavedVideos :: "env \<Rightarrow> world \<Rightarrow> world \<times> RecordedVideo list" where
  "loadSavedVideos e s =
     (let l = getSavedVideos s;
          videosNeedingThumbnails = filter lacks_thumbnail l;
          issued = (case open_db e of OpenThrows \<Rightarrow> [] | _ \<Rightarrow> videosNeedingThumbnails);
          s1 = log_store (LSGet # map (\<lambda>v. IDBOpen) issued) s
      in (s1\<lparr>recordedVideos := l\<rparr>,
          (case open_db e of OpenSuccess \<Rightarrow> videosNeedingThumbnails | _ \<Rightarrow> [])))"

text \<open>
  \<^verbatim>\<open>request.onsuccess\<close> of one pending entry: the read of its record, with the result
  that \<^verbatim>\<open>getRequest.onsuccess\<close> will see.
\<close>

definition backfill_onsuccess :: "RecordedVideo \<Rightarrow> world \<Rightarrow> world \<times> VideoRecord option" where
  "backfill_onsuccess v s = (log_store [IDBGet (rv_id v)] s, videos s (rv_id v))"

text \<open>
  What follows \<^verbatim>\<open>await generateThumbnail(videoRecord.data)\<close> for a record that was
  found.  \<open>arr\<close> is the content, when this runs, of the array \<^verbatim>\<open>savedVideos\<close> that
  the call parsed and that all its callbacks share and change in place; it is returned
  with the thumbnail attached.  The whole array, not the stored list of the moment, is
  written to the key-value store and becomes the in-memory list.
\<close>

definition backfill_thumbnail ::
    "env \<Rightarrow> RecordedVideo \<Rightarrow> VideoRecord \<Rightarrow> RecordedVideo list \<Rightarrow> world \<Rightarrow>
     RecordedVideo list \<times> world" where
  "backfill_thumbnail e v videoRecord arr s =
     (case generateThumbnail e (vr_data videoRecord) of
        Fulfilled thumbnail \<Rightarrow>
          (let arr1 = set_thumbnail (rv_id v) thumbnail arr
           in (arr1, (log_store [LSSet arr1] s)\<lparr>savedVideos := Some arr1, recordedVideos := arr1\<rparr>))
      | Pending \<Rightarrow> (arr, s)
      | Rejected err \<Rightarrow> (arr, s))"

text \<open>\<^verbatim>\<open>playVideo\<close>.\<close>

definition playVideo :: "env \<Rightarrow> jsstring \<Rightarrow> world \<Rightarrow> world" where
  "playVideo e videoId s =
     (case open_db e of
        OpenThrows \<Rightarrow> s\<lparr>error := Some (utf16 ''Failed to load video'')\<rparr>
      | OpenError \<Rightarrow> log_store [IDBOpen] s
      | OpenSuccess \<Rightarrow>
          (let s1 = log_store [IDBOpen, IDBGet videoId] s
           in case videos s videoId of
                None \<Rightarrow> s1
              | Some v \<Rightarrow> s1\<lparr>selectedVideo := Some (ObjectURL (vr_data v))\<rparr>))"

text \<open>\<^verbatim>\<open>videoName.replace(/[^a-zA-Z0-9]/g, '_')\<close> and the name given to the download.\<close>

definition alnum :: "16 word \<Rightarrow> bool" where
  "alnum c = ((0x61 \<le> c \<and> c \<le> 0x7A) \<or> (0x41 \<le> c \<and> c \<le> 0x5A) \<or> (0x30 \<le> c \<and> c \<le> 0x39))"

definition sanitize :: "jsstring \<Rightarrow> jsstring" where
  "sanitize videoName = map (\<lambda>c. if alnum c then c else 0x5F) videoName"

definition download_name :: "jsstring \<Rightarrow> jsstring" where
  "download_name videoName = sanitize videoName @ utf16 ''.webm''"

text \<open>\<^verbatim>\<open>downloadVideo\<close>.  The timer that clears the success message three seconds later is a
  later event and not part of the call.\<close>

definition downloadVideo :: "env \<Rightarrow> jsstring \<Rightarrow> jsstring \<Rightarrow> world \<Rightarrow> world" where
  "downloadVideo e videoId videoName s =
     (case open_db e of
        OpenThrows \<Rightarrow> s\<lparr>error := Some (utf16 ''Failed to download video'')\<rparr>
      | OpenError \<Rightarrow> log_store [IDBOpen] s
      | OpenSuccess \<Rightarrow>
          (let s1 = log_store [IDBOpen, IDBGet videoId] s
           in case videos s videoId of
                None \<Rightarrow> s1
              | Some v \<Rightarrow>
                  s1\<lparr>downloads := downloads s @ [(download_name videoName, vr_data v)],
                     successMessage := Some (utf16 ''Downloaded: '' @ videoName)\<rparr>))"

text \<open>
  A delete in flight: the id, and the list \<^verbatim>\<open>recordedVideos\<close> held by the closure of
  the \<^verbatim>\<open>deleteVideo\<close> that was called.
\<close>

record delete_request =
  dr_videoId :: jsstring
  dr_recordedVideos :: "RecordedVideo list"

text \<open>
  \<^verbatim>\<open>deleteVideo\<close>, the call.  The function in use is the one of the last render
  (\<^verbatim>\<open>useCallback\<close> with dependency \<^verbatim>\<open>recordedVideos\<close>), so its closure holds the
  in-memory list at the call.  A throw of \<^verbatim>\<open>indexedDB.open\<close> is caught and sets the
  error; otherwise the request is issued and its handlers run as later events: other
  calls and handlers can run between the call, \<^verbatim>\<open>onsuccess\<close> and \<^verbatim>\<open>oncomplete\<close>.
\<close>

definition deleteVideo :: "env \<Rightarrow> jsstring \<Rightarrow> world \<Rightarrow> world \<times> delete_request option" where
  "deleteVideo e videoId s =
     (case open_db e of
        OpenThrows \<Rightarrow> (s\<lparr>error := Some (utf16 ''Failed to delete video'')\<rparr>, None)
      | OpenError \<Rightarrow> (log_store [IDBOpen] s, None)
      | OpenSuccess \<Rightarrow>
          (log_store [IDBOpen] s,
           Some \<lparr>dr_videoId = videoId, dr_recordedVideos = recordedVideos s\<rparr>))"

text \<open>\<^verbatim>\<open>request.onsuccess\<close>: the transaction is opened and the delete requested.\<close>

definition delete_onsuccess :: "delete_request \<Rightarrow> world \<Rightarrow> world" where
  "delete_onsuccess r s = log_store [IDBDelete (dr_videoId r)] s"

text \<open>
  \<^verbatim>\<open>transaction.oncomplete\<close>: it filters the list of the closure, not the list in
  memory or in the store at that moment, and writes the result to both.
\<close>

definition delete_oncomplete :: "RecordedVideo list \<Rightarrow> jsstring \<Rightarrow> world \<Rightarrow> world" where
  "delete_oncomplete captured videoId s =
     (let l = filter (\<lambda>v. rv_id v \<noteq> videoId) captured
      in (log_store [LSSet l] s)\<lparr>savedVideos := Some l, recordedVideos := l\<rparr>)"

text \<open>
  The end of the transaction: when it commits, the record is gone from the object store
  and \<^verbatim>\<open>oncomplete\<close> runs; when it aborts, nothing is called.
\<close>

definition delete_commit :: "env \<Rightarrow> delete_request \<Rightarrow> world \<Rightarrow> world" where
  "delete_commit e r s =
     (if tx_commits e
      then delete_oncomplete (dr_recordedVideos r) (dr_videoId r)
             (log_store [TxComplete] (s\<lparr>videos := (videos s)(dr_videoId r := None)\<rparr>))
      else s)"

section \<open>Detection adapter: \<^verbatim>\<open>initializeFaceDetection\<close>\<close>

definition cdnUrls :: "jsstring list" where
  "cdnUrls =
     [utf16 ''https://cdn.jsdelivr.net/npm/@mediapipe/face_detection@0.4.1646425229'',
      utf16 ''https://cdn.jsdelivr.net/npm/@mediapipe/face_detection@0.4'',
      utf16 ''https://cdn.jsdelivr.net/npm/@mediapipe/face_detection'']"

text \<open>
  The \<^verbatim>\<open>for\<close> loop.  \<open>load baseUrl\<close> is what the \<^verbatim>\<open>try\<close> block does for one base URL
  (construct, configure, \<^verbatim>\<open>initialize\<close>): \<open>None\<close> when it succeeds, the error thrown
  otherwise.  The loop carries \<^verbatim>\<open>faceDetection\<close> and \<^verbatim>\<open>lastError\<close>; the third
  component lists the base URLs tried.
\<close>

fun cdn_loop ::
    "(jsstring \<Rightarrow> jsstring option) \<Rightarrow> jsstring list \<Rightarrow>
     FaceDetection option \<times> jsstring option \<times> jsstring list \<Rightarrow>
     FaceDetection option \<times> jsstring option \<times> jsstring list" where
  "cdn_loop load [] acc = acc"
| "cdn_loop load (baseUrl # rest) (faceDetection, lastError, tried) =
     (case load baseUrl of
        None \<Rightarrow> (Some (FaceDetection baseUrl), lastError, tried @ [baseUrl])
      | Some err \<Rightarrow> cdn_loop load rest (None, Some err, tried @ [baseUrl]))"

definition initializeFaceDetection :: "(jsstring \<Rightarrow> jsstring option) \<Rightarrow> world \<Rightarrow> world" where
  "initializeFaceDetection load s =
     (let s1 = s\<lparr>error := None, isLoading := True\<rparr>
      in case cdn_loop load cdnUrls (None, None, []) of
           (None, lastError, tried) \<Rightarrow>
             s1\<lparr>error :=
                  Some (utf16 ''Failed to initialize face detection. Please check your internet connection and refresh the page.''),
                isLoading := False\<rparr>
         | (Some faceDetection, lastError, tried) \<Rightarrow>
             s1\<lparr>faceDetectionRef := Some faceDetection, isLoading := False\<rparr>)"

section \<open>Concrete states and inputs\<close>

text \<open>The cells at the first render, and the state once the three elements are mounted.\<close>

definition initial_world :: world where
  "initial_world =
     \<lparr>videoRef = None, canvasRef = None, compositeCanvasRef = None,
      isRecording = False, recordingDuration = 0, faceDetected = False,
      error = None, successMessage = None, isLoading = True,
      recordedVideos = [], selectedVideo = None, faceDetectionRef = None,
      mediaRecorderRef = None, recordedChunksRef = [], recordingIntervalRef = None,
      compositeStreamRef = None, videos = Map.empty, savedVideos = None,
      downloads = [], store_log = []\<rparr>"

definition new_context :: context2d where
  "new_context = \<lparr>strokeStyle = utf16 ''#000000'', lineWidth = 1,
                   fillStyle = utf16 ''#000000'', ops = []\<rparr>"

definition new_canvas :: canvas where
  "new_canvas = \<lparr>cwidth = 300, cheight = 150, getContext = Some new_context\<rparr>"

definition mounted_world :: "real \<Rightarrow> real \<Rightarrow> world" where
  "mounted_world w h =
     initial_world\<lparr>videoRef := Some \<lparr>videoWidth = w, videoHeight = h\<rparr>,
                    canvasRef := Some new_canvas,
                    compositeCanvasRef := Some new_canvas\<rparr>"

definition one_face :: DetectionResult where
  "one_face =
     \<lparr>detections =
        [\<lparr>boundingBox = Some \<lparr>xCenter = 3/10, yCenter = 2/5, width = 1/5, height = 1/4\<rparr>,
          landmarks = Some [\<lparr>lm_x = 1/4, lm_y = 1/2\<rparr>, \<lparr>lm_x = 1/2, lm_y = 1/2\<rparr>]\<rparr>]\<rparr>"

definition face_without_box :: DetectionResult where
  "face_without_box =
     \<lparr>detections = [\<lparr>boundingBox = None, landmarks = Some [\<lparr>lm_x = 1/2, lm_y = 1/2\<rparr>]\<rparr>]\<rparr>"

text \<open>A network on which only the first candidate location fails, and one on which all do.\<close>

definition first_cdn_down :: "jsstring \<Rightarrow> jsstring option" where
  "first_cdn_down baseUrl =
     (if baseUrl = utf16 ''https://cdn.jsdelivr.net/npm/@mediapipe/face_detection@0.4.1646425229''
      then Some (utf16 ''404'') else None)"

definition all_cdns_down :: "jsstring \<Rightarrow> jsstring option" where
  "all_cdns_down baseUrl = Some (utf16 ''offline'')"

text \<open>The metadata entry \<^verbatim>\<open>saveRecording\<close> builds from the stored record.\<close>

definition metadata_of :: "VideoRecord \<Rightarrow> jsstring \<Rightarrow> RecordedVideo" where
  "metadata_of r thumbnail =
     \<lparr>rv_id = vr_id r, rv_name = vr_name r, rv_timestamp = vr_timestamp r,
      rv_duration = vr_duration r, rv_size = vr_size r, rv_thumbnail = Some thumbnail\<rparr>"

text \<open>
  A browser in which everything works, and one whose video element cannot decode the
  payload.
\<close>

definition sample_env :: env where
  "sample_env =
     \<lparr>date_now = 7, date_now_ts = 8, toLocaleString = utf16 ''1/2/2024, 10:00:00 AM'',
      canvas_context = True,
      media_events = (\<lambda>b. [LoadedMetadata (Seconds 5), Seeked]),
      toDataURL = (\<lambda>b t w h. utf16 ''data:image/jpeg;base64,AA==''),
      open_db = OpenSuccess, tx_commits = True\<rparr>"

definition undecodable_env :: env where
  "undecodable_env = sample_env\<lparr>media_events := (\<lambda>b. [MediaError])\<rparr>"

text \<open>A session that has just stopped with two buffered chunks.\<close>

definition recorded_world :: world where
  "recorded_world = initial_world\<lparr>recordedChunksRef := [[1, 2], [3]]\<rparr>"

definition sample_record :: VideoRecord where
  "sample_record =
     \<lparr>vr_id = utf16 ''video_7'', vr_name = utf16 ''Recording_1/2/2024, 10:00:00 AM'',
      vr_timestamp = 8, vr_duration = 5, vr_size = 3, vr_data = [1, 2, 3]\<rparr>"

definition other_record :: VideoRecord where
  "other_record =
     \<lparr>vr_id = utf16 ''video_9'', vr_name = utf16 ''Recording_1/3/2024, 11:00:00 AM'',
      vr_timestamp = 10, vr_duration = 2, vr_size = 1, vr_data = [4]\<rparr>"

definition sample_thumbnail :: jsstring where
  "sample_thumbnail = utf16 ''data:image/jpeg;base64,AA==''"

text \<open>A library of two recordings, present in both stores and in memory.\<close>

definition library_world :: world where
  "library_world =
     initial_world
       \<lparr>recordedVideos :=
          [metadata_of sample_record sample_thumbnail, metadata_of other_record sample_thumbnail],
        videos := [utf16 ''video_7'' \<mapsto> sample_record, utf16 ''video_9'' \<mapsto> other_record],
        savedVideos :=
          Some [metadata_of sample_record sample_thumbnail,
                metadata_of other_record sample_thumbnail]\<rparr>"

text \<open>
  Two deletes on that library, the second called before the first has completed: both
  closures hold the list of two entries.
\<close>

definition delete_7 :: delete_request where
  "delete_7 =
     \<lparr>dr_videoId = utf16 ''video_7'',
      dr_recordedVideos =
        [metadata_of sample_record sample_thumbnail, metadata_of other_record sample_thumbnail]\<rparr>"

definition delete_9 :: delete_request where
  "delete_9 =
     \<lparr>dr_videoId = utf16 ''video_9'',
      dr_recordedVideos =
        [metadata_of sample_record sample_thumbnail, metadata_of other_record sample_thumbnail]\<rparr>"

text \<open>The library after a single delete of \<^verbatim>\<open>video_7\<close> has completed.\<close>

definition after_one_delete :: world where
  "after_one_delete =
     delete_commit sample_env delete_7
       (delete_onsuccess delete_7
          (fst (deleteVideo sample_env (utf16 ''video_7'') library_world)))"

text \<open>
  The library after both deletes were called, then the first completed, then the
  second.
\<close>

definition after_two_deletes :: world where
  "after_two_deletes =
     delete_commit sample_env delete_9
       (delete_onsuccess delete_9
          (delete_commit sample_env delete_7
             (delete_onsuccess delete_7
                (fst (deleteVideo sample_env (utf16 ''video_9'')
                        (fst (deleteVideo sample_env (utf16 ''video_7'') library_world)))))))"

text \<open>
  A metadata entry whose record is not in the object store (the record was removed by
  another tab, or the page closed between the two steps of a delete).
\<close>

definition dangling_world :: world where
  "dangling_world =
     initial_world
       \<lparr>recordedVideos := [metadata_of sample_record sample_thumbnail],
        savedVideos := Some [metadata_of sample_record sample_thumbnail]\<rparr>"

section \<open>Notions used in the statements\<close>

text \<open>The calls \<^verbatim>\<open>drawFaceTracking\<close> makes on a context, whatever the context held before.\<close>

definition tracking_ops :: "DetectionResult \<Rightarrow> real \<Rightarrow> real \<Rightarrow> draw_op list" where
  "tracking_ops results w h = ops (drawFaceTracking results new_context w h)"

definition rect_of :: "real \<Rightarrow> real \<Rightarrow> BoundingBox \<Rightarrow> draw_op" where
  "rect_of w h b = StrokeRect (xCenter b * w - (width b * w) / 2)
                              (yCenter b * h - (height b * h) / 2)
                              (width b * w) (height b * h)"

definition point_of :: "real \<Rightarrow> real \<Rightarrow> Landmark \<Rightarrow> draw_op" where
  "point_of w h l = FillRect (lm_x l * w - 2) (lm_y l * h - 2) 4 4"

definition detection_ops :: "real \<Rightarrow> real \<Rightarrow> Detection \<Rightarrow> draw_op list" where
  "detection_ops w h d =
     (case boundingBox d of None \<Rightarrow> [] | Some b \<Rightarrow> [rect_of w h b]) @
     (case landmarks d of None \<Rightarrow> [] | Some ls \<Rightarrow> map (point_of w h) ls)"

text \<open>The bounding boxes and the landmark points a result carries, in order.\<close>

definition bounding_boxes :: "DetectionResult \<Rightarrow> BoundingBox list" where
  "bounding_boxes r = List.map_filter boundingBox (detections r)"

definition landmark_points :: "DetectionResult \<Rightarrow> Landmark list" where
  "landmark_points r =
     concat (map (\<lambda>d. case landmarks d of None \<Rightarrow> [] | Some ls \<Rightarrow> ls) (detections r))"

definition not_ready_message :: jsstring where
  "not_ready_message =
     utf16 ''Composite stream not ready. Please wait for camera initialization.''"

text \<open>The store calls made between two states.\<close>

definition new_store_log :: "world \<Rightarrow> world \<Rightarrow> store_event list" where
  "new_store_log s s' = drop (length (store_log s)) (store_log s')"

text \<open>The duration announced by the first \<^verbatim>\<open>loadedmetadata\<close> of a script.\<close>

fun first_duration :: "media_event list \<Rightarrow> duration option" where
  "first_duration [] = None"
| "first_duration (LoadedMetadata d # evs) = Some d"
| "first_duration (ev # evs) = first_duration evs"

text \<open>What holds of a thumbnail job at every moment of a run.\<close>

definition job_inv :: "(blob \<Rightarrow> real \<Rightarrow> nat \<Rightarrow> nat \<Rightarrow> jsstring) \<Rightarrow> blob \<Rightarrow> thumb_job \<Rightarrow> bool" where
  "job_inv td b j =
     (tj_src j = b \<and>
      (case tj_duration j of
         None \<Rightarrow> \<not> tj_seeking j \<and> tj_drawn j = [] \<and> (\<forall>th. tj_promise j \<noteq> Fulfilled th)
       | Some d \<Rightarrow>
           (tj_seeking j \<longrightarrow>
              tj_currentTime j = seek_target d \<and> tj_canvas_w j = 160 \<and> tj_canvas_h j = 90 \<and>
              tj_drawn j = [] \<and> (\<forall>th. tj_promise j \<noteq> Fulfilled th)) \<and>
           (tj_drawn j = [] \<or> tj_drawn j = [(seek_target d, 160, 90)]) \<and>
           (\<forall>th. tj_promise j = Fulfilled th \<longrightarrow>
              th = td b (seek_target d) 160 90 \<and> tj_drawn j = [(seek_target d, 160, 90)])))"


section \<open>Strings\<close>

lemma length_utf16 [simp]: "length (utf16 s) = length s"
  by (simp add: utf16_def)

section \<open>The compositor draws what the detections carry\<close>

lemma ops_fold_drawLandmark:
  "ops (fold (drawLandmark w h) ls c) = ops c @ map (point_of w h) ls"
  by (induction ls arbitrary: c) (simp_all add: drawLandmark_def fillRect_def point_of_def)

lemma ops_drawDetection:
  "ops (drawDetection w h d c) = ops c @ detection_ops w h d"
  by (simp add: drawDetection_def detection_ops_def ops_fold_drawLandmark strokeRect_def
        rect_of_def Let_def split: option.split)

lemma ops_fold_drawDetection:
  "ops (fold (drawDetection w h) ds c) = ops c @ concat (map (detection_ops w h) ds)"
  by (induction ds arbitrary: c) (simp_all add: ops_drawDetection)

lemma ops_drawFaceTracking:
  "ops (drawFaceTracking r c w h) = ops c @ concat (map (detection_ops w h) (detections r))"
  by (simp add: drawFaceTracking_def ops_fold_drawDetection)

lemma tracking_ops_eq:
  "tracking_ops r w h = concat (map (detection_ops w h) (detections r))"
  by (simp add: tracking_ops_def ops_drawFaceTracking new_context_def)

lemma strokes_detection_ops:
  "filter is_stroke (detection_ops w h d) =
     (case boundingBox d of None \<Rightarrow> [] | Some b \<Rightarrow> [rect_of w h b])"
  by (auto simp add: detection_ops_def rect_of_def point_of_def filter_empty_conv
        split: option.split)

lemma fills_detection_ops:
  "filter is_fill (detection_ops w h d) =
     (case landmarks d of None \<Rightarrow> [] | Some ls \<Rightarrow> map (point_of w h) ls)"
  by (auto simp add: detection_ops_def rect_of_def point_of_def filter_id_conv
        split: option.split)

lemma strokes_concat:
  "filter is_stroke (concat (map (detection_ops w h) ds)) =
     map (rect_of w h) (List.map_filter boundingBox ds)"
  by (induction ds) (simp_all add: strokes_detection_ops split: option.split)

lemma fills_concat:
  "filter is_fill (concat (map (detection_ops w h) ds)) =
     map (point_of w h)
       (concat (map (\<lambda>d. case landmarks d of None \<Rightarrow> [] | Some ls \<Rightarrow> ls) ds))"
  by (induction ds) (simp_all add: fills_detection_ops split: option.split)

lemma length_map_filter_boundingBox:
  "length (List.map_filter boundingBox ds) = length (filter (\<lambda>d. boundingBox d \<noteq> None) ds)"
  by (induction ds) (simp_all split: option.split)

lemma length_landmark_concat:
  "length (concat (map (\<lambda>d. case landmarks d of None \<Rightarrow> [] | Some ls \<Rightarrow> ls) ds)) =
     sum_list (map (\<lambda>d. case landmarks d of None \<Rightarrow> 0 | Some ls \<Rightarrow> length ls) ds)"
  by (induction ds) (simp_all split: option.split)

lemma onResults_ready:
  assumes "videoRef s = Some v" "canvasRef s = Some cv" "compositeCanvasRef s = Some cc"
    and "getContext cv = Some c1" "getContext cc = Some c2"
  shows "surface_ops (canvasRef (onResults r s)) =
           ops c1 @ ClearRect 0 0 (videoWidth v) (videoHeight v) #
             (if detections r = [] then [] else tracking_ops r (videoWidth v) (videoHeight v))"
    and "surface_ops (compositeCanvasRef (onResults r s)) =
           ops c2 @ DrawImage 0 0 (videoWidth v) (videoHeight v) #
             (if detections r = [] then [] else tracking_ops r (videoWidth v) (videoHeight v))"
    and "faceDetected (onResults r s) = (detections r \<noteq> [])"
  using assms
  by (simp_all add: onResults_def surface_ops_def Let_def ops_drawFaceTracking tracking_ops_eq
        clearRect_def drawImage_def)

text \<open>
  C2.  When the result has no detections and the surfaces, the video element and the two
  contexts exist, the only call made on the overlay in this frame is the clearing of the
  whole surface, the only call made on the composite is the painting of the video frame
  (so no rectangle and no landmark square is drawn on either), and \<^verbatim>\<open>faceDetected\<close>
  is set to false.
\<close>

theorem C2_no_detections:
  assumes "videoRef s = Some v" and "canvasRef s = Some cv"
    and "compositeCanvasRef s = Some cc"
    and "getContext cv = Some c1" and "getContext cc = Some c2"
    and "detections r = []"
  shows "drawn_since (canvasRef s) (canvasRef (onResults r s)) =
           [ClearRect 0 0 (videoWidth v) (videoHeight v)]
       \<and> drawn_since (compositeCanvasRef s) (compositeCanvasRef (onResults r s)) =
           [DrawImage 0 0 (videoWidth v) (videoHeight v)]
       \<and> faceDetected (onResults r s) = False"
  using assms onResults_ready [OF assms(1-5), of r]
  by (simp add: drawn_since_def surface_ops_def)

theorem C2_no_detections_witness:
  "videoRef (mounted_world 640 480) = Some \<lparr>videoWidth = 640, videoHeight = 480\<rparr>
   \<and> canvasRef (mounted_world 640 480) = Some new_canvas
   \<and> compositeCanvasRef (mounted_world 640 480) = Some new_canvas
   \<and> getContext new_canvas = Some new_context
   \<and> detections \<lparr>detections = []\<rparr> = []
   \<and> drawn_since (canvasRef (mounted_world 640 480))
        (canvasRef (onResults \<lparr>detections = []\<rparr> (mounted_world 640 480))) =
        [ClearRect 0 0 640 480]
   \<and> drawn_since (compositeCanvasRef (mounted_world 640 480))
        (compositeCanvasRef (onResults \<lparr>detections = []\<rparr> (mounted_world 640 480))) =
        [DrawImage 0 0 640 480]
   \<and> faceDetected (onResults \<lparr>detections = []\<rparr> (mounted_world 640 480)) = False"
  using C2_no_detections [of "mounted_world 640 480" "\<lparr>videoWidth = 640, videoHeight = 480\<rparr>"
      new_canvas new_canvas new_context new_context "\<lparr>detections = []\<rparr>"]
  by (simp add: mounted_world_def initial_world_def new_canvas_def)

text \<open>
  C1, as the code has it.  When the result has at least one detection and the surfaces
  exist, the overlay receives the clearing call and the composite the video frame, and
  then both receive the same calls of \<^verbatim>\<open>drawFaceTracking\<close> at the same surface size:
  one stroked rectangle for each detection that carries a bounding box, with top-left
  corner center * size - extent * size / 2 and dimensions extent * size, and one filled
  4 by 4 square for each landmark point, at point * size - 2.  The number of rectangles is
  the number of detections that have a bounding box, and the number of squares is the sum
  of the landmark counts.
\<close>

theorem C1_tracking_drawn:
  assumes "videoRef s = Some v" and "canvasRef s = Some cv"
    and "compositeCanvasRef s = Some cc"
    and "getContext cv = Some c1" and "getContext cc = Some c2"
    and "detections r \<noteq> []"
  shows "drawn_since (canvasRef s) (canvasRef (onResults r s)) =
           ClearRect 0 0 (videoWidth v) (videoHeight v) #
             tracking_ops r (videoWidth v) (videoHeight v)
       \<and> drawn_since (compositeCanvasRef s) (compositeCanvasRef (onResults r s)) =
           DrawImage 0 0 (videoWidth v) (videoHeight v) #
             tracking_ops r (videoWidth v) (videoHeight v)
       \<and> filter is_stroke (tracking_ops r (videoWidth v) (videoHeight v)) =
           map (\<lambda>b. StrokeRect (xCenter b * videoWidth v - (width b * videoWidth v) / 2)
                               (yCenter b * videoHeight v - (height b * videoHeight v) / 2)
                               (width b * videoWidth v) (height b * videoHeight v))
             (bounding_boxes r)
       \<and> filter is_fill (tracking_ops r (videoWidth v) (videoHeight v)) =
           map (\<lambda>l. FillRect (lm_x l * videoWidth v - 2) (lm_y l * videoHeight v - 2) 4 4)
             (landmark_points r)
       \<and> length (bounding_boxes r) =
           length (filter (\<lambda>d. boundingBox d \<noteq> None) (detections r))
       \<and> length (landmark_points r) =
           sum_list (map (\<lambda>d. case landmarks d of None \<Rightarrow> 0 | Some ls \<Rightarrow> length ls)
                      (detections r))
       \<and> faceDetected (onResults r s) = True"
proof -
  have a: "drawn_since (canvasRef s) (canvasRef (onResults r s)) =
           ClearRect 0 0 (videoWidth v) (videoHeight v) #
             tracking_ops r (videoWidth v) (videoHeight v)"
    using assms onResults_ready(1) [OF assms(1-5), of r]
    by (simp add: drawn_since_def surface_ops_def)
  have b: "drawn_since (compositeCanvasRef s) (compositeCanvasRef (onResults r s)) =
           DrawImage 0 0 (videoWidth v) (videoHeight v) #
             tracking_ops r (videoWidth v) (videoHeight v)"
    using assms onResults_ready(2) [OF assms(1-5), of r]
    by (simp add: drawn_since_def surface_ops_def)
  have c: "filter is_stroke (tracking_ops r (videoWidth v) (videoHeight v)) =
           map (\<lambda>b. StrokeRect (xCenter b * videoWidth v - (width b * videoWidth v) / 2)
                               (yCenter b * videoHeight v - (height b * videoHeight v) / 2)
                               (width b * videoWidth v) (height b * videoHeight v))
             (bounding_boxes r)"
    by (simp add: tracking_ops_eq strokes_concat bounding_boxes_def rect_of_def [abs_def])
  have d: "filter is_fill (tracking_ops r (videoWidth v) (videoHeight v)) =
           map (\<lambda>l. FillRect (lm_x l * videoWidth v - 2) (lm_y l * videoHeight v - 2) 4 4)
             (landmark_points r)"
    by (simp add: tracking_ops_eq fills_concat landmark_points_def point_of_def [abs_def])
  have e: "length (bounding_boxes r) =
           length (filter (\<lambda>d. boundingBox d \<noteq> None) (detections r))"
    by (simp add: bounding_boxes_def length_map_filter_boundingBox)
  have f: "length (landmark_points r) =
           sum_list (map (\<lambda>d. case landmarks d of None \<Rightarrow> 0 | Some ls \<Rightarrow> length ls)
                      (detections r))"
    by (simp add: landmark_points_def length_landmark_concat)
  have g: "faceDetected (onResults r s) = True"
    using assms onResults_ready(3) [OF assms(1-5), of r] by simp
  from a b c d e f g show ?thesis by blast
qed

theorem C1_tracking_drawn_witness:
  "videoRef (mounted_world 640 480) = Some \<lparr>videoWidth = 640, videoHeight = 480\<rparr>
   \<and> canvasRef (mounted_world 640 480) = Some new_canvas
   \<and> compositeCanvasRef (mounted_world 640 480) = Some new_canvas
   \<and> getContext new_canvas = Some new_context
   \<and> detections one_face \<noteq> []
   \<and> drawn_since (canvasRef (mounted_world 640 480))
        (canvasRef (onResults one_face (mounted_world 640 480))) =
        [ClearRect 0 0 640 480, StrokeRect 128 132 128 120,
         FillRect 158 238 4 4, FillRect 318 238 4 4]
   \<and> drawn_since (compositeCanvasRef (mounted_world 640 480))
        (compositeCanvasRef (onResults one_face (mounted_world 640 480))) =
        [DrawImage 0 0 640 480, StrokeRect 128 132 128 120,
         FillRect 158 238 4 4, FillRect 318 238 4 4]
   \<and> faceDetected (onResults one_face (mounted_world 640 480)) = True"
proof -
  have t: "tracking_ops one_face 640 480 =
             [StrokeRect 128 132 128 120, FillRect 158 238 4 4, FillRect 318 238 4 4]"
    by (simp add: tracking_ops_def drawFaceTracking_def drawDetection_def drawLandmark_def
          strokeRect_def fillRect_def one_face_def new_context_def)
  show ?thesis
    using C1_tracking_drawn [of "mounted_world 640 480"
        "\<lparr>videoWidth = 640, videoHeight = 480\<rparr>"
        new_canvas new_canvas new_context new_context one_face] t
    by (simp add: mounted_world_def initial_world_def new_canvas_def one_face_def)
qed

text \<open>
  The claim C1 as stated, with exactly N rectangles for N detections, fails for a result
  whose only detection has no bounding box: no rectangle is drawn on either surface.
\<close>

theorem C1_rectangle_count_counterexample:
  "length (detections face_without_box) = 1
   \<and> length (filter is_stroke
        (drawn_since (canvasRef (mounted_world 640 480))
           (canvasRef (onResults face_without_box (mounted_world 640 480))))) = 0
   \<and> length (filter is_stroke
        (drawn_since (compositeCanvasRef (mounted_world 640 480))
           (compositeCanvasRef (onResults face_without_box (mounted_world 640 480))))) = 0"
  by (simp add: face_without_box_def mounted_world_def initial_world_def new_canvas_def
        new_context_def onResults_def drawn_since_def surface_ops_def clearRect_def
        drawImage_def drawFaceTracking_def drawDetection_def drawLandmark_def fillRect_def)

section \<open>Starting a recording without a composite stream\<close>

text \<open>
  C3.  When no composite stream exists, \<^verbatim>\<open>startRecording\<close> only sets the error to the
  "not ready" message: \<^verbatim>\<open>isRecording\<close>, the recorder, the chunk buffer, the interval of
  the duration counter and the duration keep their values, whatever the browser would
  have done with a recorder.
\<close>

theorem C3_start_without_stream:
  assumes "compositeStreamRef s = None"
  shows "startRecording outcome timer s = s\<lparr>error := Some not_ready_message\<rparr>
       \<and> isRecording (startRecording outcome timer s) = isRecording s
       \<and> mediaRecorderRef (startRecording outcome timer s) = mediaRecorderRef s
       \<and> recordedChunksRef (startRecording outcome timer s) = recordedChunksRef s
       \<and> recordingIntervalRef (startRecording outcome timer s) = recordingIntervalRef s
       \<and> recordingDuration (startRecording outcome timer s) = recordingDuration s"
  using assms by (simp add: startRecording_def not_ready_message_def)

theorem C3_start_without_stream_witness:
  "compositeStreamRef initial_world = None
   \<and> startRecording Started 1 initial_world = initial_world\<lparr>error := Some not_ready_message\<rparr>
   \<and> isRecording (startRecording Started 1 initial_world) = False
   \<and> mediaRecorderRef (startRecording Started 1 initial_world) = None
   \<and> recordedChunksRef (startRecording Started 1 initial_world) = []
   \<and> recordingIntervalRef (startRecording Started 1 initial_world) = None"
  using C3_start_without_stream [of initial_world Started 1]
  by (simp add: initial_world_def)

section \<open>Initialization of the detection adapter\<close>

lemma cdn_loop_tried:
  "snd (snd (cdn_loop load urls (fd, le, tr))) =
     tr @ takeWhile (\<lambda>u. load u \<noteq> None) urls @ take 1 (dropWhile (\<lambda>u. load u \<noteq> None) urls)"
  by (induction urls arbitrary: fd le tr) (auto split: option.split)

lemma cdn_loop_result:
  "fst (cdn_loop load urls (None, le, tr)) =
     map_option FaceDetection (find (\<lambda>u. load u = None) urls)"
  by (induction urls arbitrary: le tr) (auto split: option.split)

lemma find_None_all: "(find P xs = None) = (\<forall>x\<in>set xs. \<not> P x)"
  by (induction xs) auto

lemma initialize_failed:
  "fst (cdn_loop load cdnUrls (None, None, [])) = None \<Longrightarrow>
   initializeFaceDetection load s =
     s\<lparr>error := Some (utf16 ''Failed to initialize face detection. Please check your internet connection and refresh the page.''),
       isLoading := False\<rparr>"
  by (cases "cdn_loop load cdnUrls (None, None, [])") (simp add: initializeFaceDetection_def)

lemma initialize_succeeded:
  "fst (cdn_loop load cdnUrls (None, None, [])) = Some f \<Longrightarrow>
   initializeFaceDetection load s =
     s\<lparr>error := None, isLoading := False, faceDetectionRef := Some f\<rparr>"
  by (cases "cdn_loop load cdnUrls (None, None, [])") (simp add: initializeFaceDetection_def)

text \<open>
  C8.  The loop tries the candidate locations in the order of the list: the locations
  tried are the failing ones up to the first that loads, and that one; the detector kept
  is the one of the first location that loads.  After \<^verbatim>\<open>initializeFaceDetection\<close> the
  error is set if and only if every location of \<^verbatim>\<open>cdnUrls\<close> fails; otherwise the
  detector of the first location that loads is stored.  The loading flag is cleared in
  both cases.
\<close>

theorem C8_candidates_in_order:
  "snd (snd (cdn_loop load urls (None, None, []))) =
     takeWhile (\<lambda>u. load u \<noteq> None) urls @ take 1 (dropWhile (\<lambda>u. load u \<noteq> None) urls)
   \<and> fst (cdn_loop load urls (None, None, [])) =
       map_option FaceDetection (find (\<lambda>u. load u = None) urls)
   \<and> (error (initializeFaceDetection load s) \<noteq> None \<longleftrightarrow> (\<forall>u\<in>set cdnUrls. load u \<noteq> None))
   \<and> (faceDetectionRef (initializeFaceDetection load s) =
        (if \<forall>u\<in>set cdnUrls. load u \<noteq> None then faceDetectionRef s
         else map_option FaceDetection (find (\<lambda>u. load u = None) cdnUrls)))
   \<and> isLoading (initializeFaceDetection load s) = False"
proof -
  let ?fd = "fst (cdn_loop load cdnUrls (None, None, []))"
  have fd: "?fd = map_option FaceDetection (find (\<lambda>u. load u = None) cdnUrls)"
    by (rule cdn_loop_result)
  have n: "(?fd = None) = (\<forall>u\<in>set cdnUrls. load u \<noteq> None)"
    unfolding fd by (simp add: find_None_all)
  have i: "(error (initializeFaceDetection load s) \<noteq> None \<longleftrightarrow> (\<forall>u\<in>set cdnUrls. load u \<noteq> None))
   \<and> (faceDetectionRef (initializeFaceDetection load s) =
        (if \<forall>u\<in>set cdnUrls. load u \<noteq> None then faceDetectionRef s
         else map_option FaceDetection (find (\<lambda>u. load u = None) cdnUrls)))
   \<and> isLoading (initializeFaceDetection load s) = False"
  proof (cases ?fd)
    case None
    then have a: "\<forall>u\<in>set cdnUrls. load u \<noteq> None" using n by simp
    show ?thesis unfolding initialize_failed [OF None] using a by simp
  next
    case (Some f)
    then have a: "\<not> (\<forall>u\<in>set cdnUrls. load u \<noteq> None)" using n by simp
    have b: "map_option FaceDetection (find (\<lambda>u. load u = None) cdnUrls) = Some f"
      using fd Some by simp
    show ?thesis unfolding initialize_succeeded [OF Some] b using a by auto
  qed
  have t: "snd (snd (cdn_loop load urls (None, None, []))) =
     takeWhile (\<lambda>u. load u \<noteq> None) urls @ take 1 (dropWhile (\<lambda>u. load u \<noteq> None) urls)"
    using cdn_loop_tried [of load urls None None "[]"] by simp
  have r: "fst (cdn_loop load urls (None, None, [])) =
       map_option FaceDetection (find (\<lambda>u. load u = None) urls)"
    by (rule cdn_loop_result)
  from t r i show ?thesis by blast
qed

theorem C8_candidates_in_order_witness:
  "snd (snd (cdn_loop first_cdn_down cdnUrls (None, None, []))) = take 2 cdnUrls
   \<and> fst (cdn_loop first_cdn_down cdnUrls (None, None, [])) = Some (FaceDetection (cdnUrls ! 1))
   \<and> error (initializeFaceDetection first_cdn_down initial_world) = None
   \<and> faceDetectionRef (initializeFaceDetection first_cdn_down initial_world) =
       Some (FaceDetection (cdnUrls ! 1))
   \<and> error (initializeFaceDetection all_cdns_down initial_world) \<noteq> None
   \<and> faceDetectionRef (initializeFaceDetection all_cdns_down initial_world) = None"
  using C8_candidates_in_order [of first_cdn_down cdnUrls initial_world]
    C8_candidates_in_order [of all_cdns_down cdnUrls initial_world]
  by (simp add: first_cdn_down_def all_cdns_down_def cdnUrls_def initial_world_def utf16_def)

section \<open>Thumbnail generation\<close>

lemma job_inv_new: "job_inv td b (new_job b)"
  by (simp add: job_inv_def new_job_def)

lemma job_inv_deliver: "job_inv td b j \<Longrightarrow> job_inv td b (deliver td ev j)"
  by (cases ev)
     (auto simp add: job_inv_def on_loadedmetadata_def on_seeked_def on_error_def
        resolve_def reject_def Let_def split: option.splits)

lemma job_inv_run: "job_inv td b j \<Longrightarrow> job_inv td b (run_job td evs j)"
  unfolding run_job_def
  by (induction evs arbitrary: j) (simp_all add: job_inv_deliver)

lemma duration_handlers:
  "tj_duration (on_loadedmetadata j) = tj_duration j"
  "tj_duration (on_seeked td j) = tj_duration j"
  "tj_duration (on_error j) = tj_duration j"
  by (simp_all add: on_loadedmetadata_def on_seeked_def on_error_def resolve_def reject_def
        Let_def split: option.split)

lemma duration_run:
  "tj_duration (run_job td evs j) =
     (case tj_duration j of Some d \<Rightarrow> Some d | None \<Rightarrow> first_duration evs)"
  unfolding run_job_def
proof (induction evs arbitrary: j)
  case Nil
  then show ?case by (simp split: option.split)
next
  case (Cons ev evs)
  show ?case
    by (cases ev) (auto simp add: Cons.IH duration_handlers split: option.split)
qed

lemma drawn_without_seeked:
  "Seeked \<notin> set evs \<Longrightarrow> tj_drawn (run_job td evs j) = tj_drawn j"
  unfolding run_job_def
proof (induction evs arbitrary: j)
  case Nil
  then show ?case by simp
next
  case (Cons ev evs)
  then show ?case
    by (cases ev) (auto simp add: on_loadedmetadata_def on_error_def reject_def
          split: option.splits)
qed

lemma drawn_needs_seek:
  assumes "tj_duration j = None" and "\<not> tj_seeking j"
    and "tj_drawn (run_job td evs j) \<noteq> tj_drawn j"
  shows "\<exists>pre d post. evs = pre @ LoadedMetadata d # post \<and> Seeked \<in> set post"
  using assms
proof (induction evs arbitrary: j)
  case Nil
  then show ?case by (simp add: run_job_def)
next
  case (Cons ev evs)
  show ?case
  proof (cases ev)
    case (LoadedMetadata d)
    let ?j1 = "deliver td ev j"
    have "tj_drawn ?j1 = tj_drawn j"
      using LoadedMetadata Cons.prems(1) by (simp add: on_loadedmetadata_def)
    moreover have "run_job td (ev # evs) j = run_job td evs ?j1"
      by (simp add: run_job_def)
    ultimately have "tj_drawn (run_job td evs ?j1) \<noteq> tj_drawn ?j1"
      using Cons.prems(3) by simp
    then have "Seeked \<in> set evs" using drawn_without_seeked by blast
    then have "ev # evs = [] @ LoadedMetadata d # evs \<and> Seeked \<in> set evs"
      using LoadedMetadata by simp
    then show ?thesis by blast
  next
    case Seeked
    then have e: "deliver td ev j = j" using Cons.prems(2) by simp
    then have "run_job td (ev # evs) j = run_job td evs j" by (simp add: run_job_def)
    with Cons.prems(3) have "tj_drawn (run_job td evs j) \<noteq> tj_drawn j" by simp
    from Cons.IH [OF Cons.prems(1,2) this]
    obtain pre d post where "evs = pre @ LoadedMetadata d # post" "Seeked \<in> set post"
      by blast
    then have "ev # evs = (ev # pre) @ LoadedMetadata d # post \<and> Seeked \<in> set post" by simp
    then show ?thesis by blast
  next
    case MediaError
    let ?j1 = "deliver td ev j"
    have a: "tj_duration ?j1 = None" "\<not> tj_seeking ?j1" "tj_drawn ?j1 = tj_drawn j"
      using MediaError Cons.prems(1,2) by (simp_all add: on_error_def reject_def)
    have "run_job td (ev # evs) j = run_job td evs ?j1" by (simp add: run_job_def)
    with Cons.prems(3) a(3) have "tj_drawn (run_job td evs ?j1) \<noteq> tj_drawn ?j1" by simp
    from Cons.IH [OF a(1,2) this]
    obtain pre d post where "evs = pre @ LoadedMetadata d # post" "Seeked \<in> set post"
      by blast
    then have "ev # evs = (ev # pre) @ LoadedMetadata d # post \<and> Seeked \<in> set post" by simp
    then show ?thesis by blast
  qed
qed

lemma run_drawn:
  "\<forall>x \<in> set (tj_drawn (run_job td evs (new_job b))).
     \<exists>d. first_duration evs = Some d \<and> x = (seek_target d, 160, 90)"
proof -
  let ?j = "run_job td evs (new_job b)"
  have inv: "job_inv td b ?j" by (rule job_inv_run [OF job_inv_new])
  have dur: "tj_duration ?j = first_duration evs"
    by (simp add: duration_run new_job_def)
  show ?thesis using inv dur by (auto simp add: job_inv_def split: option.splits)
qed

lemma run_fulfilled:
  "\<forall>th. tj_promise (run_job td evs (new_job b)) = Fulfilled th \<longrightarrow>
     (\<exists>d. first_duration evs = Some d \<and> th = td b (seek_target d) 160 90
        \<and> tj_drawn (run_job td evs (new_job b)) = [(seek_target d, 160, 90)])"
proof -
  let ?j = "run_job td evs (new_job b)"
  have inv: "job_inv td b ?j" by (rule job_inv_run [OF job_inv_new])
  have dur: "tj_duration ?j = first_duration evs"
    by (simp add: duration_run new_job_def)
  show ?thesis using inv dur by (auto simp add: job_inv_def split: option.splits)
qed

lemma generateThumbnail_fulfilled:
  "\<forall>th. generateThumbnail e b = Fulfilled th \<longrightarrow>
     (\<exists>d. first_duration (media_events e b) = Some d
        \<and> th = toDataURL e b (seek_target d) 160 90)"
  using run_fulfilled [of "toDataURL e" "media_events e b" b]
  by (auto simp add: generateThumbnail_def split: if_splits)

text \<open>
  C6.  For a video of duration D seconds the seek position is min(1, D/2), and the run
  \<^verbatim>\<open>loadedmetadata\<close>, \<^verbatim>\<open>seeked\<close> resolves with the frame at that position drawn at
  160 by 90.  In every run, each frame drawn is the frame at the seek position computed
  from the duration the metadata announced; a thumbnail the promise resolves with is that
  frame; and a frame is drawn only if a \<^verbatim>\<open>seeked\<close> event came after the
  \<^verbatim>\<open>loadedmetadata\<close> event.
\<close>

theorem C6_thumbnail_seek:
  "seek_target (Seconds D) = min 1 (D / 2)
   \<and> tj_promise (run_job td [LoadedMetadata (Seconds D), Seeked] (new_job b)) =
       Fulfilled (td b (min 1 (D / 2)) 160 90)
   \<and> (\<forall>x \<in> set (tj_drawn (run_job td evs (new_job b))).
        \<exists>d. first_duration evs = Some d \<and> x = (seek_target d, 160, 90))
   \<and> (\<forall>th. tj_promise (run_job td evs (new_job b)) = Fulfilled th \<longrightarrow>
        (\<exists>d. first_duration evs = Some d \<and> th = td b (seek_target d) 160 90
           \<and> tj_drawn (run_job td evs (new_job b)) = [(seek_target d, 160, 90)]))
   \<and> (tj_drawn (run_job td evs (new_job b)) \<noteq> [] \<longrightarrow>
        (\<exists>pre d post. evs = pre @ LoadedMetadata d # post \<and> Seeked \<in> set post))
   \<and> (\<forall>th. generateThumbnail e b = Fulfilled th \<longrightarrow>
        (\<exists>d. first_duration (media_events e b) = Some d
           \<and> th = toDataURL e b (seek_target d) 160 90))"
proof -
  let ?j = "run_job td evs (new_job b)"
  have a: "seek_target (Seconds D) = min 1 (D / 2)" by simp
  have c: "tj_promise (run_job td [LoadedMetadata (Seconds D), Seeked] (new_job b)) =
       Fulfilled (td b (min 1 (D / 2)) 160 90)"
    by (simp add: run_job_def new_job_def on_loadedmetadata_def on_seeked_def resolve_def)
  have f: "tj_drawn ?j \<noteq> [] \<longrightarrow>
        (\<exists>pre d post. evs = pre @ LoadedMetadata d # post \<and> Seeked \<in> set post)"
    using drawn_needs_seek [of "new_job b" td evs] by (simp add: new_job_def)
  from a c run_drawn [of td evs b] run_fulfilled [of td evs b] f
    generateThumbnail_fulfilled [of e b]
  show ?thesis by blast
qed

theorem C6_thumbnail_seek_witness:
  "seek_target (Seconds 1) = 1 / 2
   \<and> tj_promise (run_job (toDataURL sample_env) [LoadedMetadata (Seconds 5), Seeked]
        (new_job [1, 2, 3])) = Fulfilled (toDataURL sample_env [1, 2, 3] 1 160 90)
   \<and> tj_drawn (run_job (toDataURL sample_env)
        [LoadedMetadata (Seconds 1), Seeked, MediaError] (new_job [1, 2, 3])) =
       [(1 / 2, 160, 90)]
   \<and> tj_promise (run_job (toDataURL sample_env)
        [LoadedMetadata (Seconds 1), Seeked, MediaError] (new_job [1, 2, 3])) =
       Fulfilled (toDataURL sample_env [1, 2, 3] (1 / 2) 160 90)
   \<and> first_duration [LoadedMetadata (Seconds 1), Seeked, MediaError] = Some (Seconds 1)
   \<and> generateThumbnail sample_env [1, 2, 3] = Fulfilled sample_thumbnail"
  using C6_thumbnail_seek [of 1 "toDataURL sample_env" "[1, 2, 3]"
      "[LoadedMetadata (Seconds 1), Seeked, MediaError]" sample_env]
    C6_thumbnail_seek [of 5 "toDataURL sample_env" "[1, 2, 3]"
      "[LoadedMetadata (Seconds 1), Seeked, MediaError]" sample_env]
  by (simp add: run_job_def new_job_def on_loadedmetadata_def on_seeked_def on_error_def
        resolve_def reject_def generateThumbnail_def sample_env_def sample_thumbnail_def)

section \<open>Saving a recording\<close>

text \<open>
  C10.  When chunks were buffered and the thumbnail promise of the assembled payload is
  rejected, \<^verbatim>\<open>saveRecording\<close> only sets the error to the save-failure message: no call
  is made on either store, the object store, the stored metadata list and the in-memory
  list are unchanged.  In any browser, a save that makes a store call at all has a
  thumbnail: its promise was fulfilled.
\<close>

theorem C10_thumbnail_failure_aborts:
  assumes "recordedChunksRef s \<noteq> []"
    and "generateThumbnail e (concat (recordedChunksRef s)) = Rejected err"
  shows "saveRecording e d s = s\<lparr>error := Some (utf16 ''Failed to save recording'')\<rparr>
       \<and> videos (saveRecording e d s) = videos s
       \<and> savedVideos (saveRecording e d s) = savedVideos s
       \<and> recordedVideos (saveRecording e d s) = recordedVideos s
       \<and> store_log (saveRecording e d s) = store_log s
       \<and> error (saveRecording e d s) = Some (utf16 ''Failed to save recording'')
       \<and> (\<forall>e1. store_log (saveRecording e1 d s) \<noteq> store_log s \<longrightarrow>
             (\<exists>thumbnail.
                generateThumbnail e1 (concat (recordedChunksRef s)) = Fulfilled thumbnail))"
proof -
  have a: "saveRecording e d s = s\<lparr>error := Some (utf16 ''Failed to save recording'')\<rparr>"
    using assms by (simp add: saveRecording_def)
  have b: "\<forall>e1. store_log (saveRecording e1 d s) \<noteq> store_log s \<longrightarrow>
             (\<exists>thumbnail.
                generateThumbnail e1 (concat (recordedChunksRef s)) = Fulfilled thumbnail)"
    by (auto simp add: saveRecording_def Let_def split: promise.splits if_splits)
  from a b show ?thesis by simp
qed

theorem C10_thumbnail_failure_aborts_witness:
  "recordedChunksRef recorded_world \<noteq> []
   \<and> generateThumbnail undecodable_env (concat (recordedChunksRef recorded_world)) =
       Rejected (utf16 ''Error loading video for thumbnail'')
   \<and> saveRecording undecodable_env 5 recorded_world =
       recorded_world\<lparr>error := Some (utf16 ''Failed to save recording'')\<rparr>
   \<and> videos (saveRecording undecodable_env 5 recorded_world) = Map.empty
   \<and> savedVideos (saveRecording undecodable_env 5 recorded_world) = None
   \<and> store_log (saveRecording undecodable_env 5 recorded_world) = []"
proof -
  have g: "generateThumbnail undecodable_env (concat (recordedChunksRef recorded_world)) =
       Rejected (utf16 ''Error loading video for thumbnail'')"
    by (simp add: generateThumbnail_def undecodable_env_def sample_env_def run_job_def
          on_error_def reject_def new_job_def)
  show ?thesis
    using C10_thumbnail_failure_aborts [of recorded_world undecodable_env
        "utf16 ''Error loading video for thumbnail''" 5] g
    by (simp add: recorded_world_def initial_world_def)
qed

text \<open>
  C4.  Whenever \<^verbatim>\<open>saveRecording\<close> writes the metadata list to the key-value store, the
  store calls of the save are, in this order: the opening of the database, the
  \<^verbatim>\<open>add\<close> of the full record, the completion of its transaction, the reading of the
  stored list and the writing of the list.  The record is then in the object store with
  the payload, the list written is the stored list followed by the metadata of that
  record with the thumbnail, and the in-memory list is that list.
\<close>

theorem C4_metadata_after_commit:
  assumes "LSSet l \<in> set (new_store_log s (saveRecording e d s))"
  shows "\<exists>videoRecord thumbnail.
           new_store_log s (saveRecording e d s) =
             [IDBOpen, IDBAdd videoRecord, TxComplete, LSGet, LSSet l]
         \<and> videos (saveRecording e d s) (vr_id videoRecord) = Some videoRecord
         \<and> vr_data videoRecord = concat (recordedChunksRef s)
         \<and> l = getSavedVideos s @ [metadata_of videoRecord thumbnail]
         \<and> savedVideos (saveRecording e d s) = Some l
         \<and> recordedVideos (saveRecording e d s) = l"
  using assms
  by (auto simp add: new_store_log_def saveRecording_def save_onsuccess_def
        save_oncomplete_def log_store_def getSavedVideos_def metadata_of_def Let_def
        split: promise.splits idb_open.splits if_splits)

theorem C4_metadata_after_commit_witness:
  "LSSet [metadata_of sample_record sample_thumbnail]
     \<in> set (new_store_log recorded_world (saveRecording sample_env 5 recorded_world))
   \<and> new_store_log recorded_world (saveRecording sample_env 5 recorded_world) =
       [IDBOpen, IDBAdd sample_record, TxComplete, LSGet,
        LSSet [metadata_of sample_record sample_thumbnail]]
   \<and> videos (saveRecording sample_env 5 recorded_world) (utf16 ''video_7'') = Some sample_record
   \<and> savedVideos (saveRecording sample_env 5 recorded_world) =
       Some [metadata_of sample_record sample_thumbnail]
   \<and> recordedVideos (saveRecording sample_env 5 recorded_world) =
       [metadata_of sample_record sample_thumbnail]"
proof -
  have g: "generateThumbnail sample_env [1, 2, 3] = Fulfilled sample_thumbnail"
    by (simp add: generateThumbnail_def sample_env_def run_job_def new_job_def
          on_loadedmetadata_def on_seeked_def resolve_def sample_thumbnail_def)
  have i: "utf16 ''video_'' @ decimal 7 = utf16 ''video_7''"
    by (simp add: decimal.simps utf16_def)
  have n: "utf16 ''Recording_'' @ utf16 ''1/2/2024, 10:00:00 AM'' =
           utf16 ''Recording_1/2/2024, 10:00:00 AM''"
    by (simp add: utf16_def)
  have l: "new_store_log recorded_world (saveRecording sample_env 5 recorded_world) =
       [IDBOpen, IDBAdd sample_record, TxComplete, LSGet,
        LSSet [metadata_of sample_record sample_thumbnail]]"
    using g i n
    by (simp add: new_store_log_def saveRecording_def save_onsuccess_def save_oncomplete_def
          log_store_def getSavedVideos_def recorded_world_def initial_world_def
          sample_env_def sample_record_def metadata_of_def Let_def)
  then have h: "LSSet [metadata_of sample_record sample_thumbnail]
     \<in> set (new_store_log recorded_world (saveRecording sample_env 5 recorded_world))"
    by simp
  from C4_metadata_after_commit [OF h] l show ?thesis
    by (auto simp add: sample_record_def)
qed

section \<open>Deleting a recording\<close>

text \<open>
  A delete that completes while no other call or handler has changed the lists: the
  stored and the in-memory list are the list at the call without the id, and the record
  is gone.
\<close>

lemma delete_without_overlap:
  assumes "open_db e = OpenSuccess" and "tx_commits e"
    and "deleteVideo e videoId s = (s1, Some r)"
  shows "recordedVideos (delete_commit e r (delete_onsuccess r s1)) =
           filter (\<lambda>v. rv_id v \<noteq> videoId) (recordedVideos s)"
    and "savedVideos (delete_commit e r (delete_onsuccess r s1)) =
           Some (filter (\<lambda>v. rv_id v \<noteq> videoId) (recordedVideos s))"
    and "videos (delete_commit e r (delete_onsuccess r s1)) videoId = None"
  using assms
  by (auto simp add: deleteVideo_def delete_onsuccess_def delete_commit_def
        delete_oncomplete_def log_store_def Let_def)

text \<open>
  C5 does not hold of the code.  After a delete of \<^verbatim>\<open>video_7\<close> has completed, the
  object store has no record under the id and \<^verbatim>\<open>playVideo\<close> of the id ends without
  an error and without a playback: the get signals no failure.  When a delete of
  \<^verbatim>\<open>video_9\<close> was called before the first completed, its \<^verbatim>\<open>oncomplete\<close> filters the
  list its closure holds, which still has \<^verbatim>\<open>video_7\<close>: after both have completed the
  stored list and the list \<^verbatim>\<open>loadSavedVideos\<close> puts in memory contain the deleted id
  \<^verbatim>\<open>video_7\<close>, whose record is gone.
\<close>

theorem C5_deleted_id_listed_and_get_silent:
  "deleteVideo sample_env (utf16 ''video_7'') library_world =
     (log_store [IDBOpen] library_world, Some delete_7)
   \<and> snd (deleteVideo sample_env (utf16 ''video_9'')
            (fst (deleteVideo sample_env (utf16 ''video_7'') library_world))) = Some delete_9
   \<and> videos after_one_delete (utf16 ''video_7'') = None
   \<and> recordedVideos after_one_delete = [metadata_of other_record sample_thumbnail]
   \<and> savedVideos after_one_delete = Some [metadata_of other_record sample_thumbnail]
   \<and> error (playVideo sample_env (utf16 ''video_7'') after_one_delete) = None
   \<and> selectedVideo (playVideo sample_env (utf16 ''video_7'') after_one_delete) = None
   \<and> videos after_two_deletes (utf16 ''video_7'') = None
   \<and> videos after_two_deletes (utf16 ''video_9'') = None
   \<and> savedVideos after_two_deletes = Some [metadata_of sample_record sample_thumbnail]
   \<and> recordedVideos (fst (loadSavedVideos sample_env after_two_deletes)) =
       [metadata_of sample_record sample_thumbnail]
   \<and> savedVideos (fst (loadSavedVideos sample_env after_two_deletes)) =
       Some [metadata_of sample_record sample_thumbnail]
   \<and> rv_id (metadata_of sample_record sample_thumbnail) = utf16 ''video_7''
   \<and> error (playVideo sample_env (utf16 ''video_7'') after_two_deletes) = None
   \<and> selectedVideo (playVideo sample_env (utf16 ''video_7'') after_two_deletes) = None"
proof -
  have n: "utf16 ''video_9'' \<noteq> utf16 ''video_7''" by (simp add: utf16_def)
  have i: "rv_id (metadata_of sample_record sample_thumbnail) = utf16 ''video_7''"
    "rv_id (metadata_of other_record sample_thumbnail) = utf16 ''video_9''"
    by (simp_all add: metadata_of_def sample_record_def other_record_def)
  have c: "deleteVideo sample_env (utf16 ''video_7'') library_world =
     (log_store [IDBOpen] library_world, Some delete_7)"
    by (simp add: deleteVideo_def sample_env_def delete_7_def library_world_def)
  have d: "snd (deleteVideo sample_env (utf16 ''video_9'')
            (fst (deleteVideo sample_env (utf16 ''video_7'') library_world))) = Some delete_9"
    by (simp add: deleteVideo_def sample_env_def delete_9_def library_world_def log_store_def)
  have one: "videos after_one_delete (utf16 ''video_7'') = None"
    "recordedVideos after_one_delete = [metadata_of other_record sample_thumbnail]"
    "savedVideos after_one_delete = Some [metadata_of other_record sample_thumbnail]"
    "error after_one_delete = None" "selectedVideo after_one_delete = None"
    using n i
    by (simp_all add: after_one_delete_def delete_commit_def delete_onsuccess_def
          delete_oncomplete_def deleteVideo_def delete_7_def log_store_def sample_env_def
          library_world_def initial_world_def Let_def)
  have two: "videos after_two_deletes (utf16 ''video_7'') = None"
    "videos after_two_deletes (utf16 ''video_9'') = None"
    "recordedVideos after_two_deletes = [metadata_of sample_record sample_thumbnail]"
    "savedVideos after_two_deletes = Some [metadata_of sample_record sample_thumbnail]"
    "error after_two_deletes = None" "selectedVideo after_two_deletes = None"
    using n i
    by (simp_all add: after_two_deletes_def delete_commit_def delete_onsuccess_def
          delete_oncomplete_def deleteVideo_def delete_7_def delete_9_def log_store_def
          sample_env_def library_world_def initial_world_def Let_def)
  have o: "open_db sample_env = OpenSuccess" by (simp add: sample_env_def)
  have p1: "error (playVideo sample_env (utf16 ''video_7'') after_one_delete) = None"
    "selectedVideo (playVideo sample_env (utf16 ''video_7'') after_one_delete) = None"
    using one o by (simp_all add: playVideo_def log_store_def Let_def)
  have p2: "error (playVideo sample_env (utf16 ''video_7'') after_two_deletes) = None"
    "selectedVideo (playVideo sample_env (utf16 ''video_7'') after_two_deletes) = None"
    using two o by (simp_all add: playVideo_def log_store_def Let_def)
  have l: "recordedVideos (fst (loadSavedVideos sample_env after_two_deletes)) =
       [metadata_of sample_record sample_thumbnail]"
    "savedVideos (fst (loadSavedVideos sample_env after_two_deletes)) =
       Some [metadata_of sample_record sample_thumbnail]"
    using two(4) by (simp_all add: loadSavedVideos_def getSavedVideos_def log_store_def Let_def)
  from c d one(1-3) p1 two(1,2,4) l i(1) p2 show ?thesis by simp
qed

section \<open>Playing or downloading a recording whose record is missing\<close>

text \<open>
  C9 does not hold of the code.  For a metadata entry whose record is not in the object
  store, \<^verbatim>\<open>playVideo\<close> and \<^verbatim>\<open>downloadVideo\<close> end without an error message, without
  a playback, without a download and without a success message.
\<close>

theorem C9_missing_record_silent:
  "videos dangling_world (utf16 ''video_7'') = None
   \<and> error (playVideo sample_env (utf16 ''video_7'') dangling_world) = None
   \<and> selectedVideo (playVideo sample_env (utf16 ''video_7'') dangling_world) = None
   \<and> error (downloadVideo sample_env (utf16 ''video_7'') (utf16 ''Recording_1/2'')
               dangling_world) = None
   \<and> successMessage (downloadVideo sample_env (utf16 ''video_7'') (utf16 ''Recording_1/2'')
               dangling_world) = None
   \<and> downloads (downloadVideo sample_env (utf16 ''video_7'') (utf16 ''Recording_1/2'')
               dangling_world) = []"
  by (simp add: playVideo_def downloadVideo_def dangling_world_def initial_world_def
        sample_env_def log_store_def)

section \<open>The file name of an export\<close>

text \<open>
  The claim C7 as stated fails: the sanitized name of \<^verbatim>\<open>Recording_1/2\<close> keeps the
  underscore and gets another one for the slash, so it is not made of letters and digits
  only.
\<close>

theorem C7_name_counterexample:
  "download_name (utf16 ''Recording_1/2'') = utf16 ''Recording_1_2.webm''
   \<and> \<not> list_all alnum (sanitize (utf16 ''Recording_1/2''))"
  by (simp add: download_name_def sanitize_def alnum_def utf16_def)

text \<open>
  C7, as the code has it.  The file name is the display name in which every code unit
  that is not an ASCII letter or digit is replaced by an underscore, followed by
  \<^verbatim>\<open>.webm\<close>: the sanitized name has the length of the display name, keeps the letters
  and digits in place, consists of letters, digits and underscores, and is the display
  name itself when that has letters and digits only.
\<close>

theorem C7_download_name:
  "download_name videoName = sanitize videoName @ utf16 ''.webm''
   \<and> length (sanitize videoName) = length videoName
   \<and> (\<forall>i < length videoName.
         sanitize videoName ! i = (if alnum (videoName ! i) then videoName ! i else 0x5F))
   \<and> (\<forall>c \<in> set (sanitize videoName). alnum c \<or> c = 0x5F)
   \<and> (list_all alnum videoName \<longrightarrow> sanitize videoName = videoName)"
  by (auto simp add: download_name_def sanitize_def list_all_iff map_idI)

theorem C7_download_name_witness:
  "download_name (utf16 ''Take 1'') = utf16 ''Take_1.webm''
   \<and> length (sanitize (utf16 ''Take 1'')) = length (utf16 ''Take 1'')
   \<and> sanitize (utf16 ''Take 1'') ! 4 = 0x5F
   \<and> list_all alnum (utf16 ''Take1'') \<and> sanitize (utf16 ''Take1'') = utf16 ''Take1''"
  using C7_download_name [of "utf16 ''Take 1''"] C7_download_name [of "utf16 ''Take1''"]
  by (simp add: sanitize_def alnum_def utf16_def)

end
